theory Spec2Isabelle
  imports Main "HOL-Library.Word" "HOL-Library.Sublist"
begin

section \<open>Values shared by the client and the receiver\<close>

text \<open>
  Go byte slices and strings are both byte sequences; a nil byte slice behaves as the
  empty one everywhere it is used here.
\<close>

type_synonym bytes = string

text \<open>\<^verbatim>\<open>time.Time\<close> is an opaque library value. The code only stores pointers to it.\<close>

typedecl Time

text \<open>
  Go's \<^verbatim>\<open>error\<close> values. \<open>errBlankSubscription\<close> is the package variable of main.go
  line 641: a value of its own, distinct from every other error even when the text is
  the same. \<open>errors_New s\<close> is a value made by \<^verbatim>\<open>errors.New(s)\<close> or by
  \<^verbatim>\<open>fmt.Errorf\<close> without wrapping. \<open>lib_error s\<close> is an error handed back by a
  library (encoding/json, net/http, net/url, io), with its text.
\<close>

datatype error = errBlankSubscription | errors_New string | lib_error string

fun Error :: "error \<Rightarrow> string" where
  "Error errBlankSubscription = ''no subscription could be parsed''"
| "Error (errors_New s) = s"
| "Error (lib_error s) = s"

subsection \<open>Streams\<close>

text \<open>
  An \<^verbatim>\<open>io.ReadCloser\<close>: the bytes it delivers, and the error that ends the stream when
  it does not end with EOF. \<^verbatim>\<open>ioutil.ReadAll\<close> returns the bytes, or that error.
\<close>

type_synonym ReadCloser = "bytes \<times> error option"

definition bytes_NewReader :: "bytes \<Rightarrow> ReadCloser" where
  "bytes_NewReader blob = (blob, None)"

definition ioutil_ReadAll :: "ReadCloser \<Rightarrow> error + bytes" where
  "ioutil_ReadAll rc = (case snd rc of Some err \<Rightarrow> Inl err | None \<Rightarrow> Inr (fst rc))"

subsection \<open>HTTP messages\<close>

text \<open>
  \<^verbatim>\<open>http.Header\<close> is \<^verbatim>\<open>map[string][]string\<close>; a key that is absent reads as the empty
  list. \<^verbatim>\<open>Header.Add\<close> appends a value to the key's list. The two keys the client adds,
  \<^verbatim>\<open>Accept\<close> and \<^verbatim>\<open>Authorization\<close>, are in canonical form already.
\<close>

type_synonym Header = "string \<Rightarrow> string list"

definition empty_Header :: Header where
  "empty_Header = (\<lambda>_. [])"

definition Header_Add :: "string \<Rightarrow> string \<Rightarrow> Header \<Rightarrow> Header" where
  "Header_Add key val h = h(key := h key @ [val])"

text \<open>
  A parsed URL (\<^verbatim>\<open>*url.URL\<close>) is written as the text its \<^verbatim>\<open>String\<close> method gives. It
  need not be the text it was parsed from: net/url escapes, for one, a space in the
  path as \<^verbatim>\<open>%20\<close>.
\<close>

type_synonym URL = string

record Request =
  req_Method :: string
  req_URL :: URL
  req_Header :: Header
  req_Body :: ReadCloser

record Response =
  res_Status :: string
  res_StatusCode :: int
  res_Header :: Header
  res_Body :: ReadCloser

text \<open>\<^verbatim>\<open>http.RoundTripper\<close>: one method, from a request to a response or an error.\<close>

type_synonym RoundTripper = "Request \<Rightarrow> error + Response"

section \<open>The payload model (records of main.go, lines 578 to 634)\<close>

type_synonym Event = string
type_synonym ContentType = string
type_synonym Type = string

text \<open>
  A Go pointer field is an \<open>option\<close> (\<open>None\<close> is nil). A slice field is an
  \<open>option\<close> of a list: \<open>None\<close> is the nil slice, \<open>Some []\<close> the empty slice that is
  not nil; \<^verbatim>\<open>reflect.DeepEqual\<close> tells the two apart. Field names carry the record's
  prefix, since several records share \<^verbatim>\<open>URL\<close>, \<^verbatim>\<open>Name\<close>, \<^verbatim>\<open>Events\<close>,
  \<^verbatim>\<open>Active\<close> and \<^verbatim>\<open>Config\<close>.
\<close>

record PayloadConfig =
  pc_URL :: string
  pc_ContentType :: ContentType

record Hook =
  hook_ID :: "64 word"
  hook_URL :: string
  hook_TestURL :: string
  hook_PingURL :: string
  hook_Name :: string
  hook_Events :: "string list option"
  hook_Active :: bool
  hook_Config :: "PayloadConfig option"
  hook_UpdatedAt :: "Time option"
  hook_CreatedAt :: "Time option"
  hook_Type :: Type
  hook_AppID :: string

record SubscribeRequest =
  sr_Name :: string
  sr_Active :: bool
  sr_Events :: "Event list option"
  sr_Config :: "PayloadConfig option"

record RepoSubscribeRequest =
  rsr_Owner :: string
  rsr_Repo :: string
  rsr_HookSubscription :: "SubscribeRequest option"

record Subscription =
  sub_ID :: "64 word"
  sub_URL :: string
  sub_TestURL :: string
  sub_PingURL :: string
  sub_Name :: string
  sub_Events :: "Event list option"
  sub_Active :: bool
  sub_Config :: "PayloadConfig option"
  sub_UpdatedAt :: "Time option"
  sub_CreatedAt :: "Time option"

text \<open>\<^verbatim>\<open>new(Subscription)\<close>: every field at its zero value.\<close>

definition new_Subscription :: Subscription where
  "new_Subscription =
     \<lparr>sub_ID = 0, sub_URL = [], sub_TestURL = [], sub_PingURL = [], sub_Name = [],
      sub_Events = None, sub_Active = False, sub_Config = None,
      sub_UpdatedAt = None, sub_CreatedAt = None\<rparr>"

definition blankSubscription :: Subscription where
  "blankSubscription = new_Subscription"

section \<open>The client (main.go, lines 105 to 110 and 636 to 718)\<close>

text \<open>
  The \<^verbatim>\<open>Client\<close> struct. Its lock \<^verbatim>\<open>mu\<close> orders concurrent accesses and holds no
  data; a sequential model has no use for it. \<^verbatim>\<open>rt\<close> is an interface value and may
  be nil.
\<close>

record Client =
  rt :: "RoundTripper option"
  apiKey :: string

definition SetHTTPRoundTripper :: "RoundTripper option \<Rightarrow> Client \<Rightarrow> Client" where
  "SetHTTPRoundTripper t c = c\<lparr>rt := t\<rparr>"


text \<open>\<^verbatim>\<open>httpClient\<close> builds \<^verbatim>\<open>&http.Client{Transport: rt}\<close> from the transport read once.\<close>

record http_Client =
  Transport :: "RoundTripper option"

definition httpClient :: "Client \<Rightarrow> http_Client" where
  "httpClient c = \<lparr>Transport = rt c\<rparr>"

subsection \<open>What the libraries do\<close>

text \<open>
  A JSON text as a tree. Only the constructors that the encoding of a
  \<^verbatim>\<open>SubscribeRequest\<close> can produce are needed.
\<close>

datatype json = JNull | JBool bool | JString string | JArray "json list"
  | JObject "(string \<times> json) list"

text \<open>
  The library functions that the client calls and whose code is outside the repository:
  \<^item> \<open>json_encode\<close>: how encoding/json writes a JSON tree as bytes (string escapes);
  \<^item> \<open>json_Unmarshal\<close>: \<^verbatim>\<open>json.Unmarshal(blob, subs)\<close> for a \<^verbatim>\<open>*Subscription\<close>: from the
    bytes and the record that \<^verbatim>\<open>subs\<close> points to, the filled record or an error;
  \<^item> \<open>url_Parse\<close>: \<^verbatim>\<open>url.Parse\<close>, which \<^verbatim>\<open>http.NewRequest\<close> calls on the URL string:
    the parsed URL, or the error with which the string is rejected;
  \<^item> \<open>http_Client_Do\<close>: \<^verbatim>\<open>(*http.Client).Do\<close>, the exchange itself: the response it
    returns for a request, or an error. With the default policy of net/http, which
    the client of \<open>httpClient\<close> has, it follows redirects: the response it returns is
    the transport's response to the request it was given, or to a later request of
    its own making when the transport answered with a redirect.
\<close>

record libs =
  json_encode :: "json \<Rightarrow> error + bytes"
  json_Unmarshal :: "bytes \<Rightarrow> Subscription \<Rightarrow> error + Subscription"
  url_Parse :: "string \<Rightarrow> error + URL"
  http_Client_Do :: "http_Client \<Rightarrow> Request \<Rightarrow> error + Response"

text \<open>
  The struct tags of \<^verbatim>\<open>PayloadConfig\<close> and \<^verbatim>\<open>SubscribeRequest\<close> (lines 600 to 606 and
  630 to 634) name the keys, in the order of the fields, and every one is
  \<^verbatim>\<open>omitempty\<close>: a key is left out when its field is the empty string, false, a slice
  of length 0 or a nil pointer. A nil \<^verbatim>\<open>*SubscribeRequest\<close> encodes as \<^verbatim>\<open>null\<close>.
\<close>

definition omitempty :: "bool \<Rightarrow> string \<Rightarrow> json \<Rightarrow> (string \<times> json) list" where
  "omitempty is_empty key v = (if is_empty then [] else [(key, v)])"

definition json_of_PayloadConfig :: "PayloadConfig \<Rightarrow> json" where
  "json_of_PayloadConfig pc =
     JObject (omitempty (pc_URL pc = []) ''url'' (JString (pc_URL pc)) @
              omitempty (pc_ContentType pc = []) ''content_type'' (JString (pc_ContentType pc)))"

definition json_of_SubscribeRequest :: "SubscribeRequest option \<Rightarrow> json" where
  "json_of_SubscribeRequest p =
     (case p of
        None \<Rightarrow> JNull
      | Some s \<Rightarrow>
          JObject
            (omitempty (sr_Name s = []) ''name'' (JString (sr_Name s)) @
             omitempty (\<not> sr_Active s) ''active'' (JBool (sr_Active s)) @
             (case sr_Events s of
                None \<Rightarrow> []
              | Some es \<Rightarrow> omitempty (es = []) ''events'' (JArray (map JString es))) @
             (case sr_Config s of
                None \<Rightarrow> []
              | Some pc \<Rightarrow> [(''config'', json_of_PayloadConfig pc)])))"

definition json_Marshal :: "libs \<Rightarrow> SubscribeRequest option \<Rightarrow> error + bytes" where
  "json_Marshal L p = json_encode L (json_of_SubscribeRequest p)"

text \<open>
  \<^verbatim>\<open>http.NewRequest\<close> parses the URL string and fails when it does not parse;
  otherwise the request has the method, the parsed URL, no header and the body given.
  (The method \<^verbatim>\<open>POST\<close>, the only one used, is always accepted.)
\<close>

definition http_NewRequest :: "libs \<Rightarrow> string \<Rightarrow> string \<Rightarrow> ReadCloser \<Rightarrow> error + Request" where
  "http_NewRequest L method url body =
     (case url_Parse L url of
        Inl err \<Rightarrow> Inl err
      | Inr u \<Rightarrow>
          Inr \<lparr>req_Method = method, req_URL = u, req_Header = empty_Header, req_Body = body\<rparr>)"

text \<open>
  Modelled from the spec: \<^verbatim>\<open>otils.StatusOK\<close>, of the package github.com/orijtech/otils,
  whose source is not part of the repository. The spec calls a status accepted by it
  a 2xx status.
\<close>

definition StatusOK :: "int \<Rightarrow> bool" where
  "StatusOK code = (200 \<le> code \<and> code \<le> 299)"

subsection \<open>Subscribing\<close>

definition baseURL :: string where
  "baseURL = ''https://api.github.com''"

text \<open>
  \<^verbatim>\<open>doHTTPReq\<close> adds the headers to the request it was given, hands it to the HTTP
  client and returns \<^verbatim>\<open>(blob, header, err)\<close>; a nil blob is \<open>[]\<close>, a nil header
  \<open>empty_Header\<close>, a nil error \<open>None\<close>. The first component of the model's result is
  the list of the requests handed to \<^verbatim>\<open>Do\<close>, in order. It is not the list of the
  requests that the transport receives: that is up to net/http, which sends a request
  again, or another one, when the transport answers with a redirect.
\<close>

definition doHTTPReq ::
  "libs \<Rightarrow> Client \<Rightarrow> Request \<Rightarrow> Request list \<times> (bytes \<times> Header \<times> error option)" where
  "doHTTPReq L c req =
     (let req1 = req\<lparr>req_Header :=
                   Header_Add ''Accept'' ''application/vnd.github.v3+json'' (req_Header req)\<rparr>;
          req2 = (if apiKey c \<noteq> []
                  then req1\<lparr>req_Header :=
                         Header_Add ''Authorization'' (''token '' @ apiKey c) (req_Header req1)\<rparr>
                  else req1)
      in ([req2],
          (case http_Client_Do L (httpClient c) req2 of
             Inl err \<Rightarrow> ([], empty_Header, Some err)
           | Inr res \<Rightarrow>
               if \<not> StatusOK (res_StatusCode res)
               then ([], res_Header res, Some (errors_New (res_Status res)))
               else (case ioutil_ReadAll (res_Body res) of
                       Inl err \<Rightarrow> ([], res_Header res, Some err)
                     | Inr blob \<Rightarrow> (blob, res_Header res, None)))))"

text \<open>
  \<^verbatim>\<open>SubscribeToRepo\<close> returns \<^verbatim>\<open>(nil, err)\<close> or \<^verbatim>\<open>(subs, nil)\<close>: a sum. The first
  component is again the list of requests handed to the HTTP client.
  \<^verbatim>\<open>reflect.DeepEqual\<close> on two \<^verbatim>\<open>*Subscription\<close> compares the records field by field,
  pointers by what they point to, a nil slice or pointer equal only to nil: the
  equality of the model.
\<close>

definition SubscribeToRepo ::
  "libs \<Rightarrow> Client \<Rightarrow> RepoSubscribeRequest \<Rightarrow> Request list \<times> (error + Subscription)" where
  "SubscribeToRepo L c rsr =
     (case json_Marshal L (rsr_HookSubscription rsr) of
        Inl err \<Rightarrow> ([], Inl err)
      | Inr blob \<Rightarrow>
          (let fullURL = baseURL @ ''/repos/'' @ rsr_Owner rsr @ ''/'' @ rsr_Repo rsr @ ''/hooks''
           in case http_NewRequest L ''POST'' fullURL (bytes_NewReader blob) of
                Inl err \<Rightarrow> ([], Inl err)
              | Inr req \<Rightarrow>
                  (case doHTTPReq L c req of
                     (sent, _, _, Some err) \<Rightarrow> (sent, Inl err)
                   | (sent, blob', _, None) \<Rightarrow>
                       (sent,
                        (case json_Unmarshal L blob' new_Subscription of
                           Inl err \<Rightarrow> Inl err
                         | Inr subs \<Rightarrow>
                             if subs = blankSubscription then Inl errBlankSubscription
                             else Inr subs)))))"

subsection \<open>Construction from the environment\<close>

definition gclaEnvKey :: string where
  "gclaEnvKey = ''GCLA_GITHUB_API_KEY''"

text \<open>The process environment: a variable is unset (\<open>None\<close>) or has a value.\<close>

type_synonym environ = "string \<rightharpoonup> string"

text \<open>
  Modelled from the spec: \<^verbatim>\<open>otils.EnvOrAlternates\<close>, of the package
  github.com/orijtech/otils, whose source is not part of the repository. It is called
  with the variable's name and no alternates; the spec says that it reads the variable
  holding the API key, and that construction fails when the variable is unset or empty.
\<close>

definition EnvOrAlternates :: "environ \<Rightarrow> string \<Rightarrow> string" where
  "EnvOrAlternates env envVar = (case env envVar of None \<Rightarrow> [] | Some v \<Rightarrow> v)"

text \<open>
  The verb \<^verbatim>\<open>%q\<close> writes its argument between double quotes; \<open>gclaEnvKey\<close> has no
  character that would need an escape.
\<close>

definition NewClientFromEnv :: "environ \<Rightarrow> error + Client" where
  "NewClientFromEnv env =
     (let k = EnvOrAlternates env gclaEnvKey
      in if k = []
         then Inl (errors_New (''expecting '' @ [CHR 0x22] @ gclaEnvKey @ [CHR 0x22] @
                               '' to have been set in your environment''))
         else Inr \<lparr>rt = None, apiKey = k\<rparr>)"

section \<open>The receiver (main.go, lines 28 to 66)\<close>

record pingPayload =
  pp_Zen :: string
  pp_HookID :: string
  pp_Hook :: "Hook option"

definition new_pingPayload :: pingPayload where
  "new_pingPayload = \<lparr>pp_Zen = [], pp_HookID = [], pp_Hook = None\<rparr>"

text \<open>
  An \<^verbatim>\<open>http.ResponseWriter\<close>: the status written, if any, and the body written so far.
  \<^verbatim>\<open>http.Error(w, msg, code)\<close> writes the status (a status already written stays) and
  then the message with \<^verbatim>\<open>fmt.Fprintln\<close>, that is, followed by a newline. It also sets
  two content headers, which nothing here reads.
\<close>

record ResponseWriter =
  rw_status :: "int option"
  rw_body :: bytes

definition new_ResponseWriter :: ResponseWriter where
  "new_ResponseWriter = \<lparr>rw_status = None, rw_body = []\<rparr>"

definition StatusBadRequest :: int where
  "StatusBadRequest = 400"

definition http_Error :: "ResponseWriter \<Rightarrow> string \<Rightarrow> int \<Rightarrow> ResponseWriter" where
  "http_Error w msg code =
     w\<lparr>rw_status := (case rw_status w of None \<Rightarrow> Some code | Some c \<Rightarrow> Some c),
       rw_body := rw_body w @ msg @ [CHR 0x0A]\<rparr>"

text \<open>
  \<^verbatim>\<open>parseRequest\<close> reads the whole body and decodes it into what \<^verbatim>\<open>savPtr\<close> points to.
  The decoder for the type of \<^verbatim>\<open>savPtr\<close> is \<^verbatim>\<open>json.Unmarshal\<close>, a parameter. The model
  returns the filled value in place of the mutation.
\<close>

definition parseRequest :: "(bytes \<Rightarrow> 'a \<Rightarrow> error + 'a) \<Rightarrow> Request \<Rightarrow> 'a \<Rightarrow> error + 'a" where
  "parseRequest unmarshal req sav =
     (case ioutil_ReadAll (req_Body req) of
        Inl err \<Rightarrow> Inl err
      | Inr blob \<Rightarrow> unmarshal blob sav)"

definition pong ::
  "(bytes \<Rightarrow> pingPayload \<Rightarrow> error + pingPayload) \<Rightarrow> ResponseWriter \<Rightarrow> Request \<Rightarrow> ResponseWriter"
  where
  "pong unmarshal w r =
     (case parseRequest unmarshal r new_pingPayload of
        Inl err \<Rightarrow> http_Error w (Error err) StatusBadRequest
      | Inr pPayload \<Rightarrow> w)"

definition handleWebhooks :: "ResponseWriter \<Rightarrow> Request \<Rightarrow> ResponseWriter" where
  "handleWebhooks w r = w"

text \<open>
  What the net/http server sends for a handler: the handler runs on a fresh writer, a
  handler that returns without writing a status gets status 200, and in reply to a
  \<^verbatim>\<open>HEAD\<close> request the server sends no body, whatever the handler wrote. The routes
  of \<^verbatim>\<open>main\<close> are registered for every method.
\<close>

definition serve :: "(ResponseWriter \<Rightarrow> Request \<Rightarrow> ResponseWriter) \<Rightarrow> Request \<Rightarrow> int \<times> bytes" where
  "serve handler r =
     (let w = handler new_ResponseWriter r
      in ((case rw_status w of None \<Rightarrow> 200 | Some code \<Rightarrow> code),
          (if req_Method r = ''HEAD'' then [] else rw_body w)))"


section \<open>Instances for the examples\<close>

text \<open>
  Concrete library functions and transports, on which the theorems below are run.
  \<open>render\<close> writes a JSON tree the way encoding/json does when no string needs an
  escape: no white space, keys in the order of the tree.
\<close>

definition quote :: "string \<Rightarrow> string" where
  "quote s = [CHR 0x22] @ s @ [CHR 0x22]"

fun join :: "string \<Rightarrow> string list \<Rightarrow> string" where
  "join sep [] = []"
| "join sep [x] = x"
| "join sep (x # y # ys) = x @ sep @ join sep (y # ys)"

fun render :: "json \<Rightarrow> bytes" where
  "render JNull = ''null''"
| "render (JBool b) = (if b then ''true'' else ''false'')"
| "render (JString s) = quote s"
| "render (JArray js) = ''['' @ join '','' (map render js) @ '']''"
| "render (JObject kvs) =
     ''{'' @ join '','' (map (\<lambda>kv. quote (fst kv) @ '':'' @ render (snd kv)) kvs) @ ''}''"

text \<open>
  A decoder that knows two response bodies, the empty object and an object with the
  identifier 1, and answers any other body as encoding/json answers a body that
  stops early.
\<close>

definition body_id1 :: bytes where
  "body_id1 = ''{'' @ quote ''id'' @ '':1}''"

definition decode_example :: "bytes \<Rightarrow> Subscription \<Rightarrow> error + Subscription" where
  "decode_example blob v =
     (if blob = ''{}'' then Inr v
      else if blob = body_id1 then Inr (v\<lparr>sub_ID := 1\<rparr>)
      else Inl (lib_error ''unexpected end of JSON input''))"

text \<open>
  A URL parser for the examples. net/url rejects a path in which a percent sign is not
  followed by two hexadecimal digits, naming the string and the escape in its error,
  and writes a space of the path as \<^verbatim>\<open>%20\<close>. The other checks and escapes of net/url
  are left out of the example.
\<close>

definition ishex :: "char \<Rightarrow> bool" where
  "ishex ch = (ch \<in> set ''0123456789abcdefABCDEF'')"

fun first_bad_escape :: "string \<Rightarrow> string option" where
  "first_bad_escape [] = None"
| "first_bad_escape (ch # cs) =
     (if ch = CHR ''%''
      then (case cs of
              a # b # rest \<Rightarrow>
                if ishex a \<and> ishex b then first_bad_escape rest else Some [ch, a, b]
            | _ \<Rightarrow> Some (ch # cs))
      else first_bad_escape cs)"

fun escape_spaces :: "string \<Rightarrow> string" where
  "escape_spaces [] = []"
| "escape_spaces (ch # cs) =
     (if ch = CHR '' '' then ''%20'' @ escape_spaces cs else ch # escape_spaces cs)"

definition parse_example :: "string \<Rightarrow> error + URL" where
  "parse_example u =
     (case first_bad_escape u of
        Some esc \<Rightarrow>
          Inl (lib_error (''parse '' @ quote u @ '': invalid URL escape '' @ quote esc))
      | None \<Rightarrow> Inr (escape_spaces u))"

text \<open>
  An HTTP client for the examples, with the redirect policy of net/http in outline. The
  transport is the client's own when it has one, the default transport otherwise. A
  response 301, 302 or 303 with a \<^verbatim>\<open>Location\<close> makes the client ask again at that
  location with \<^verbatim>\<open>GET\<close> and no body (a \<^verbatim>\<open>HEAD\<close> stays a \<^verbatim>\<open>HEAD\<close>); a response 307
  or 308 with a \<^verbatim>\<open>Location\<close> makes it send the same request to that location. The
  request headers are kept, as net/http keeps them within one host. The client gives
  up at the tenth redirect. \<open>answer\<close> is a transport that gives the same response to
  every request; \<open>moved\<close> is a transport that answers the example's URL with a
  redirect to another URL, and every other URL with 201 and the body \<open>body_id1\<close>.
\<close>

definition redirect_request :: "Request \<Rightarrow> Response \<Rightarrow> Request option" where
  "redirect_request req res =
     (case res_Header res ''Location'' of
        [] \<Rightarrow> None
      | loc # _ \<Rightarrow>
          if res_StatusCode res \<in> {301, 302, 303}
          then Some (req\<lparr>req_Method := (if req_Method req = ''HEAD'' then ''HEAD'' else ''GET''),
                         req_URL := loc, req_Body := bytes_NewReader []\<rparr>)
          else if res_StatusCode res \<in> {307, 308}
          then Some (req\<lparr>req_URL := loc\<rparr>)
          else None)"

fun follow :: "nat \<Rightarrow> RoundTripper \<Rightarrow> Request \<Rightarrow> error + Response" where
  "follow 0 t req = Inl (lib_error ''stopped after 10 redirects'')"
| "follow (Suc n) t req =
     (case t req of
        Inl err \<Rightarrow> Inl err
      | Inr res \<Rightarrow>
          (case redirect_request req res of
             None \<Rightarrow> Inr res
           | Some req' \<Rightarrow> follow n t req'))"

definition client_Do :: "RoundTripper \<Rightarrow> http_Client \<Rightarrow> Request \<Rightarrow> error + Response" where
  "client_Do dflt hc req =
     follow 10 (case Transport hc of None \<Rightarrow> dflt | Some t \<Rightarrow> t) req"

definition answer :: "string \<Rightarrow> int \<Rightarrow> bytes \<Rightarrow> RoundTripper" where
  "answer status code body =
     (\<lambda>req. Inr \<lparr>res_Status = status, res_StatusCode = code, res_Header = empty_Header,
                 res_Body = bytes_NewReader body\<rparr>)"

definition moved :: RoundTripper where
  "moved =
     (\<lambda>req. if req_URL req = ''https://api.github.com/repos/orijtech/gcla/hooks''
            then Inr \<lparr>res_Status = ''302 Found'', res_StatusCode = 302,
                      res_Header =
                        Header_Add ''Location'' ''https://api.github.com/repositories/1/hooks''
                          empty_Header,
                      res_Body = bytes_NewReader []\<rparr>
            else Inr \<lparr>res_Status = ''201 Created'', res_StatusCode = 201,
                      res_Header = empty_Header, res_Body = bytes_NewReader body_id1\<rparr>)"

definition example_libs :: "RoundTripper \<Rightarrow> libs" where
  "example_libs dflt =
     \<lparr>json_encode = (\<lambda>j. Inr (render j)), json_Unmarshal = decode_example,
      url_Parse = parse_example, http_Client_Do = client_Do dflt\<rparr>"

text \<open>The request of the repository's example \<^verbatim>\<open>Example_client_SubscribeToEvents\<close>.\<close>

definition example_subscription :: SubscribeRequest where
  "example_subscription =
     \<lparr>sr_Name = ''test'', sr_Active = True,
      sr_Events = Some [''issues'', ''push'', ''pull_request''],
      sr_Config = Some \<lparr>pc_URL = ''https://hooks.orijtech/gcla-test'', pc_ContentType = ''json''\<rparr>\<rparr>"

definition example_rsr :: RepoSubscribeRequest where
  "example_rsr =
     \<lparr>rsr_Owner = ''orijtech'', rsr_Repo = ''gcla'',
      rsr_HookSubscription = Some example_subscription\<rparr>"

definition example_body :: bytes where
  "example_body =
     ''{'' @ quote ''name'' @ '':'' @ quote ''test'' @ '','' @ quote ''active'' @ '':true,'' @
     quote ''events'' @ '':['' @ quote ''issues'' @ '','' @ quote ''push'' @ '','' @
     quote ''pull_request'' @ ''],'' @ quote ''config'' @ '':{'' @ quote ''url'' @ '':'' @
     quote ''https://hooks.orijtech/gcla-test'' @ '','' @ quote ''content_type'' @ '':'' @
     quote ''json'' @ ''}}''"

text \<open>The request handed to the HTTP client for \<open>example_rsr\<close> and the API key \<open>k\<close>.\<close>

definition example_request :: "string \<Rightarrow> Request" where
  "example_request k =
     \<lparr>req_Method = ''POST'', req_URL = ''https://api.github.com/repos/orijtech/gcla/hooks'',
      req_Header =
        Header_Add ''Authorization'' (''token '' @ k)
          (Header_Add ''Accept'' ''application/vnd.github.v3+json'' empty_Header),
      req_Body = bytes_NewReader example_body\<rparr>"

text \<open>
  A decoder for ping payloads that knows the empty object, and a request to
  \<^verbatim>\<open>/ping\<close> with a given method and body.
\<close>

definition ping_decode_example :: "bytes \<Rightarrow> pingPayload \<Rightarrow> error + pingPayload" where
  "ping_decode_example blob v =
     (if blob = ''{}'' then Inr v else Inl (lib_error ''unexpected end of JSON input''))"

definition ping_request :: "string \<Rightarrow> bytes \<Rightarrow> Request" where
  "ping_request method body =
     \<lparr>req_Method = method, req_URL = ''/ping'', req_Header = empty_Header,
      req_Body = bytes_NewReader body\<rparr>"

section \<open>Properties\<close>

lemmas example_defs =
  example_libs_def example_rsr_def example_subscription_def example_request_def
  example_body_def answer_def moved_def client_Do_def redirect_request_def parse_example_def
  decode_example_def body_id1_def quote_def ishex_def eval_nat_numeral

lemmas model_defs =
  SubscribeToRepo_def doHTTPReq_def json_Marshal_def json_of_SubscribeRequest_def
  json_of_PayloadConfig_def omitempty_def http_NewRequest_def baseURL_def httpClient_def
  StatusOK_def ioutil_ReadAll_def bytes_NewReader_def Header_Add_def empty_Header_def
  new_Subscription_def blankSubscription_def Let_def

subsection \<open>The steps of a subscription\<close>

lemma blank_iff:
  "(s = blankSubscription) =
   (sub_ID s = 0 \<and> sub_URL s = [] \<and> sub_TestURL s = [] \<and> sub_PingURL s = [] \<and>
    sub_Name s = [] \<and> sub_Events s = None \<and> \<not> sub_Active s \<and> sub_Config s = None \<and>
    sub_UpdatedAt s = None \<and> sub_CreatedAt s = None)"
  by (cases s) (auto simp: blankSubscription_def new_Subscription_def)

lemma fst_doHTTPReq:
  "fst (doHTTPReq L c req) =
     [req\<lparr>req_Header :=
        (if apiKey c \<noteq> []
         then Header_Add ''Authorization'' (''token '' @ apiKey c)
                (Header_Add ''Accept'' ''application/vnd.github.v3+json'' (req_Header req))
         else Header_Add ''Accept'' ''application/vnd.github.v3+json'' (req_Header req))\<rparr>]"
  by (simp add: doHTTPReq_def Let_def)

lemma fst_SubscribeToRepo:
  "fst (SubscribeToRepo L c rsr) =
     (case json_Marshal L (rsr_HookSubscription rsr) of
        Inl err \<Rightarrow> []
      | Inr blob \<Rightarrow>
          (case http_NewRequest L ''POST''
                  (baseURL @ ''/repos/'' @ rsr_Owner rsr @ ''/'' @ rsr_Repo rsr @ ''/hooks'')
                  (bytes_NewReader blob) of
             Inl err \<Rightarrow> []
           | Inr req \<Rightarrow> fst (doHTTPReq L c req)))"
  by (simp add: SubscribeToRepo_def Let_def split: sum.splits prod.splits option.splits)

lemma sent_SubscribeToRepo:
  "fst (SubscribeToRepo L c rsr) =
     (case json_Marshal L (rsr_HookSubscription rsr) of
        Inl err \<Rightarrow> []
      | Inr blob \<Rightarrow>
          (case url_Parse L
                  (baseURL @ ''/repos/'' @ rsr_Owner rsr @ ''/'' @ rsr_Repo rsr @ ''/hooks'') of
             Inl err \<Rightarrow> []
           | Inr u \<Rightarrow>
               [\<lparr>req_Method = ''POST'',
                 req_URL = u,
                 req_Header =
                   (if apiKey c \<noteq> []
                    then Header_Add ''Authorization'' (''token '' @ apiKey c)
                           (Header_Add ''Accept'' ''application/vnd.github.v3+json'' empty_Header)
                    else Header_Add ''Accept'' ''application/vnd.github.v3+json'' empty_Header),
                 req_Body = bytes_NewReader blob\<rparr>]))"
  by (simp add: fst_SubscribeToRepo fst_doHTTPReq http_NewRequest_def
      split: sum.splits option.splits)

lemma sent_ignores_exchange:
  "fst (SubscribeToRepo (L\<lparr>http_Client_Do := d\<rparr>) c rsr) = fst (SubscribeToRepo L c rsr)"
  by (simp add: fst_SubscribeToRepo fst_doHTTPReq json_Marshal_def http_NewRequest_def
      cong: sum.case_cong option.case_cong)

lemma sent_cases:
  "fst (SubscribeToRepo L c rsr) = [r] \<Longrightarrow>
   \<exists>blob req. json_Marshal L (rsr_HookSubscription rsr) = Inr blob \<and>
     http_NewRequest L ''POST''
       (baseURL @ ''/repos/'' @ rsr_Owner rsr @ ''/'' @ rsr_Repo rsr @ ''/hooks'')
       (bytes_NewReader blob) = Inr req \<and>
     fst (doHTTPReq L c req) = [r]"
  by (auto simp: SubscribeToRepo_def Let_def split: sum.splits prod.splits option.splits)

lemma SubscribeToRepo_after_request:
  assumes "json_Marshal L (rsr_HookSubscription rsr) = Inr blob"
    and "http_NewRequest L ''POST''
       (baseURL @ ''/repos/'' @ rsr_Owner rsr @ ''/'' @ rsr_Repo rsr @ ''/hooks'')
       (bytes_NewReader blob) = Inr req"
  shows "snd (SubscribeToRepo L c rsr) =
     (case doHTTPReq L c req of
        (sent, _, _, Some err) \<Rightarrow> Inl err
      | (sent, blob', _, None) \<Rightarrow>
          (case json_Unmarshal L blob' new_Subscription of
             Inl err \<Rightarrow> Inl err
           | Inr subs \<Rightarrow> if subs = blankSubscription then Inl errBlankSubscription else Inr subs))"
  using assms
  by (auto simp: SubscribeToRepo_def Let_def split: sum.splits prod.splits option.splits)

lemma doHTTPReq_result:
  assumes "fst (doHTTPReq L c req) = [r]"
    and "http_Client_Do L (httpClient c) r = Inr res"
  shows "snd (doHTTPReq L c req) =
     (if \<not> StatusOK (res_StatusCode res)
      then ([], res_Header res, Some (errors_New (res_Status res)))
      else (case ioutil_ReadAll (res_Body res) of
              Inl err \<Rightarrow> ([], res_Header res, Some err)
            | Inr blob \<Rightarrow> (blob, res_Header res, None)))"
  using assms
  by (auto simp: doHTTPReq_def Let_def split: sum.splits if_splits)

lemma doHTTPReq_outcome:
  assumes "fst (doHTTPReq L c req) = [r]"
  shows "snd (doHTTPReq L c req) =
     (case http_Client_Do L (httpClient c) r of
        Inl err \<Rightarrow> ([], empty_Header, Some err)
      | Inr res \<Rightarrow>
          if \<not> StatusOK (res_StatusCode res)
          then ([], res_Header res, Some (errors_New (res_Status res)))
          else (case ioutil_ReadAll (res_Body res) of
                  Inl err \<Rightarrow> ([], res_Header res, Some err)
                | Inr blob \<Rightarrow> (blob, res_Header res, None)))"
  using assms
  by (auto simp: doHTTPReq_def Let_def split: sum.splits if_splits)

text \<open>
  Once the request \<open>r\<close> has been handed to the HTTP client, the result is decided by
  what the client returns for \<open>r\<close>: an error, or a response, and then its status, its
  body and the decoder.
\<close>

lemma SubscribeToRepo_outcome:
  assumes sent: "fst (SubscribeToRepo L c rsr) = [r]"
  shows "snd (SubscribeToRepo L c rsr) =
     (case http_Client_Do L (httpClient c) r of
        Inl err \<Rightarrow> Inl err
      | Inr res \<Rightarrow>
          if \<not> StatusOK (res_StatusCode res) then Inl (errors_New (res_Status res))
          else (case ioutil_ReadAll (res_Body res) of
                  Inl err \<Rightarrow> Inl err
                | Inr blob \<Rightarrow>
                    (case json_Unmarshal L blob new_Subscription of
                       Inl err \<Rightarrow> Inl err
                     | Inr subs \<Rightarrow>
                         if subs = blankSubscription then Inl errBlankSubscription
                         else Inr subs)))"
proof -
  from sent obtain blob req where
    m: "json_Marshal L (rsr_HookSubscription rsr) = Inr blob" and
    n: "http_NewRequest L ''POST''
       (baseURL @ ''/repos/'' @ rsr_Owner rsr @ ''/'' @ rsr_Repo rsr @ ''/hooks'')
       (bytes_NewReader blob) = Inr req" and
    d: "fst (doHTTPReq L c req) = [r]"
    using sent_cases by blast
  obtain sent' out where p: "doHTTPReq L c req = (sent', out)"
    by (cases "doHTTPReq L c req")
  with doHTTPReq_outcome [OF d] have
    "out = (case http_Client_Do L (httpClient c) r of
        Inl err \<Rightarrow> ([], empty_Header, Some err)
      | Inr res \<Rightarrow>
          if \<not> StatusOK (res_StatusCode res)
          then ([], res_Header res, Some (errors_New (res_Status res)))
          else (case ioutil_ReadAll (res_Body res) of
                  Inl err \<Rightarrow> ([], res_Header res, Some err)
                | Inr blob \<Rightarrow> (blob, res_Header res, None)))"
    by simp
  then show ?thesis
    using SubscribeToRepo_after_request [OF m n, of c] p
    by (simp split: sum.splits)
qed

text \<open>
  Once the request \<open>r\<close> has been handed to the HTTP client and the client has returned
  the response \<open>res\<close>, the result is decided by the status, the body and the decoder.
\<close>

lemma SubscribeToRepo_result:
  assumes sent: "fst (SubscribeToRepo L c rsr) = [r]"
    and resp: "http_Client_Do L (httpClient c) r = Inr res"
  shows "snd (SubscribeToRepo L c rsr) =
     (if \<not> StatusOK (res_StatusCode res) then Inl (errors_New (res_Status res))
      else (case ioutil_ReadAll (res_Body res) of
              Inl err \<Rightarrow> Inl err
            | Inr blob \<Rightarrow>
                (case json_Unmarshal L blob new_Subscription of
                   Inl err \<Rightarrow> Inl err
                 | Inr subs \<Rightarrow>
                     if subs = blankSubscription then Inl errBlankSubscription else Inr subs)))"
proof -
  from sent obtain blob req where
    m: "json_Marshal L (rsr_HookSubscription rsr) = Inr blob" and
    n: "http_NewRequest L ''POST''
       (baseURL @ ''/repos/'' @ rsr_Owner rsr @ ''/'' @ rsr_Repo rsr @ ''/hooks'')
       (bytes_NewReader blob) = Inr req" and
    d: "fst (doHTTPReq L c req) = [r]"
    using sent_cases by blast
  obtain sent' out where p: "doHTTPReq L c req = (sent', out)"
    by (cases "doHTTPReq L c req")
  with doHTTPReq_result [OF d resp] have
    "out = (if \<not> StatusOK (res_StatusCode res)
      then ([], res_Header res, Some (errors_New (res_Status res)))
      else (case ioutil_ReadAll (res_Body res) of
              Inl err \<Rightarrow> ([], res_Header res, Some err)
            | Inr blob \<Rightarrow> (blob, res_Header res, None)))"
    by simp
  then show ?thesis
    using SubscribeToRepo_after_request [OF m n, of c] p
    by (simp split: sum.splits)
qed

subsection \<open>Results of a subscription\<close>

text \<open>
  Claim C1. When the HTTP client returns a response with a 2xx status whose body
  decodes, without error, to a Subscription with at least one field that is not at its
  zero value, \<open>SubscribeToRepo\<close> returns exactly the decoded record and no error.
\<close>

theorem SubscribeToRepo_returns_decoded:
  assumes sent: "fst (SubscribeToRepo L c rsr) = [r]"
    and resp: "http_Client_Do L (httpClient c) r = Inr res"
    and ok: "StatusOK (res_StatusCode res)"
    and body: "ioutil_ReadAll (res_Body res) = Inr body"
    and dec: "json_Unmarshal L body new_Subscription = Inr s"
    and nz: "sub_ID s \<noteq> 0 \<or> sub_URL s \<noteq> [] \<or> sub_TestURL s \<noteq> [] \<or> sub_PingURL s \<noteq> [] \<or>
       sub_Name s \<noteq> [] \<or> sub_Events s \<noteq> None \<or> sub_Active s \<or> sub_Config s \<noteq> None \<or>
       sub_UpdatedAt s \<noteq> None \<or> sub_CreatedAt s \<noteq> None"
  shows "snd (SubscribeToRepo L c rsr) = Inr s"
proof -
  have "s \<noteq> blankSubscription"
    using nz by (auto simp: blank_iff)
  then show ?thesis
    using SubscribeToRepo_result [OF sent resp] ok body dec by simp
qed

text \<open>An instance: a transport that answers 201 with the body \<^verbatim>\<open>{"id":1}\<close>.\<close>

theorem SubscribeToRepo_returns_decoded_witness:
  "fst (SubscribeToRepo (example_libs (answer ''500'' 500 []))
          \<lparr>rt = Some (answer ''201 Created'' 201 body_id1), apiKey = ''s3cret''\<rparr> example_rsr)
     = [example_request ''s3cret''] \<and>
   StatusOK 201 \<and>
   snd (SubscribeToRepo (example_libs (answer ''500'' 500 []))
          \<lparr>rt = Some (answer ''201 Created'' 201 body_id1), apiKey = ''s3cret''\<rparr> example_rsr)
     = Inr (new_Subscription\<lparr>sub_ID := 1\<rparr>)"
  using SubscribeToRepo_returns_decoded [of "example_libs (answer ''500'' 500 [])"
      "\<lparr>rt = Some (answer ''201 Created'' 201 body_id1), apiKey = ''s3cret''\<rparr>" example_rsr
      "example_request ''s3cret''"
      "\<lparr>res_Status = ''201 Created'', res_StatusCode = 201, res_Header = empty_Header,
        res_Body = bytes_NewReader body_id1\<rparr>"
      body_id1 "new_Subscription\<lparr>sub_ID := 1\<rparr>"]
  by (simp add: example_defs model_defs)

text \<open>
  Claim C2. When the HTTP client returns a response with a 2xx status whose body
  decodes to a Subscription equal to the zero-valued one (as the body \<^verbatim>\<open>{}\<close> does),
  \<open>SubscribeToRepo\<close> returns no Subscription and fails with \<open>errBlankSubscription\<close>, an
  error of its own whose text is "no subscription could be parsed".
\<close>

theorem SubscribeToRepo_blank_rejected:
  assumes sent: "fst (SubscribeToRepo L c rsr) = [r]"
    and resp: "http_Client_Do L (httpClient c) r = Inr res"
    and ok: "StatusOK (res_StatusCode res)"
    and body: "ioutil_ReadAll (res_Body res) = Inr body"
    and dec: "json_Unmarshal L body new_Subscription = Inr s"
    and blank: "s = blankSubscription"
  shows "snd (SubscribeToRepo L c rsr) = Inl errBlankSubscription \<and>
     Error errBlankSubscription = ''no subscription could be parsed'' \<and>
     (\<forall>t. errBlankSubscription \<noteq> errors_New t \<and> errBlankSubscription \<noteq> lib_error t)"
  using SubscribeToRepo_result [OF sent resp] ok body dec blank by simp

text \<open>An instance: a transport that answers 201 with the body \<^verbatim>\<open>{}\<close>.\<close>

theorem SubscribeToRepo_blank_rejected_witness:
  "StatusOK 201 \<and>
   decode_example ''{}'' new_Subscription = Inr blankSubscription \<and>
   snd (SubscribeToRepo (example_libs (answer ''500'' 500 []))
          \<lparr>rt = Some (answer ''201 Created'' 201 ''{}''), apiKey = ''s3cret''\<rparr> example_rsr)
     = Inl errBlankSubscription"
  using SubscribeToRepo_blank_rejected [of "example_libs (answer ''500'' 500 [])"
      "\<lparr>rt = Some (answer ''201 Created'' 201 ''{}''), apiKey = ''s3cret''\<rparr>" example_rsr
      "example_request ''s3cret''"
      "\<lparr>res_Status = ''201 Created'', res_StatusCode = 201, res_Header = empty_Header,
        res_Body = bytes_NewReader ''{}''\<rparr>"
      "''{}''" blankSubscription]
  by (simp add: example_defs model_defs)

text \<open>
  Claim C3, amended. When the response that the HTTP client returns for the request
  (the transport's response, or the last one when net/http has followed redirects) has
  a status that is not a 2xx status, \<open>SubscribeToRepo\<close> fails, the text of the error is
  the status line of that response (so it contains it), and the body of the response
  has no influence: with any other body in its place the result is the same.
\<close>

theorem SubscribeToRepo_non_2xx_fails:
  assumes sent: "fst (SubscribeToRepo L c rsr) = [r]"
    and resp: "http_Client_Do L (httpClient c) r = Inr res"
    and bad: "\<not> StatusOK (res_StatusCode res)"
  shows "\<exists>e. snd (SubscribeToRepo L c rsr) = Inl e \<and>
     Error e = res_Status res \<and> sublist (res_Status res) (Error e) \<and>
     (\<forall>b. snd (SubscribeToRepo
               (L\<lparr>http_Client_Do :=
                    (http_Client_Do L)
                      (httpClient c :=
                         (http_Client_Do L (httpClient c))(r := Inr (res\<lparr>res_Body := b\<rparr>)))\<rparr>)
               c rsr) = Inl e)"
proof -
  have here: "snd (SubscribeToRepo L c rsr) = Inl (errors_New (res_Status res))"
    using SubscribeToRepo_result [OF sent resp] bad by simp
  have other: "snd (SubscribeToRepo
               (L\<lparr>http_Client_Do :=
                    (http_Client_Do L)
                      (httpClient c :=
                         (http_Client_Do L (httpClient c))(r := Inr (res\<lparr>res_Body := b\<rparr>)))\<rparr>)
               c rsr) = Inl (errors_New (res_Status res))" for b
  proof -
    let ?L = "L\<lparr>http_Client_Do :=
                    (http_Client_Do L)
                      (httpClient c :=
                         (http_Client_Do L (httpClient c))(r := Inr (res\<lparr>res_Body := b\<rparr>)))\<rparr>"
    have s: "fst (SubscribeToRepo ?L c rsr) = [r]"
      using sent by (simp only: sent_ignores_exchange)
    have d: "http_Client_Do ?L (httpClient c) r = Inr (res\<lparr>res_Body := b\<rparr>)"
      by simp
    show ?thesis
      using SubscribeToRepo_result [OF s d] bad by simp
  qed
  show ?thesis
    using here other by auto
qed

text \<open>An instance: a transport that answers 404, which is no redirect.\<close>

theorem SubscribeToRepo_non_2xx_fails_witness:
  "\<not> StatusOK 404 \<and>
   (\<exists>e. snd (SubscribeToRepo (example_libs (answer ''500'' 500 []))
          \<lparr>rt = Some (answer ''404 Not Found'' 404 ''{}''), apiKey = ''s3cret''\<rparr> example_rsr)
     = Inl e \<and> Error e = ''404 Not Found'')"
proof -
  let ?L = "example_libs (answer ''500'' 500 [])"
  let ?c = "\<lparr>rt = Some (answer ''404 Not Found'' 404 ''{}''), apiKey = ''s3cret''\<rparr>"
  let ?res = "\<lparr>res_Status = ''404 Not Found'', res_StatusCode = 404, res_Header = empty_Header,
        res_Body = bytes_NewReader ''{}''\<rparr>"
  have sent: "fst (SubscribeToRepo ?L ?c example_rsr) = [example_request ''s3cret'']"
    by (simp add: example_defs model_defs)
  have resp: "http_Client_Do ?L (httpClient ?c) (example_request ''s3cret'') = Inr ?res"
    by (simp add: example_defs model_defs)
  have bad: "\<not> StatusOK (res_StatusCode ?res)"
    by (simp add: StatusOK_def)
  have "\<exists>e. snd (SubscribeToRepo ?L ?c example_rsr) = Inl e \<and> Error e = res_Status ?res"
    using SubscribeToRepo_non_2xx_fails [OF sent resp bad]
    apply (elim exE conjE)
    apply (rule exI)
    apply (rule conjI)
     apply assumption
    apply assumption
    done
  then have "\<exists>e. snd (SubscribeToRepo ?L ?c example_rsr) = Inl e \<and> Error e = ''404 Not Found''"
    by simp
  moreover have "\<not> StatusOK 404"
    by (simp add: StatusOK_def)
  ultimately show ?thesis
    by (intro conjI)
qed


text \<open>
  The claim as it was stated is about every response of the transport. It fails on a
  transport that answers the request with the redirect 302: the status is not a 2xx
  status, the HTTP client asks again at the new location, gets 201 there, and
  \<open>SubscribeToRepo\<close> returns the Subscription of that answer.
\<close>

theorem SubscribeToRepo_redirect_followed:
  "moved (example_request ''s3cret'') =
     Inr \<lparr>res_Status = ''302 Found'', res_StatusCode = 302,
          res_Header =
            Header_Add ''Location'' ''https://api.github.com/repositories/1/hooks'' empty_Header,
          res_Body = bytes_NewReader []\<rparr> \<and>
   \<not> StatusOK 302 \<and>
   fst (SubscribeToRepo (example_libs (answer ''500'' 500 []))
          \<lparr>rt = Some moved, apiKey = ''s3cret''\<rparr> example_rsr) = [example_request ''s3cret''] \<and>
   snd (SubscribeToRepo (example_libs (answer ''500'' 500 []))
          \<lparr>rt = Some moved, apiKey = ''s3cret''\<rparr> example_rsr)
     = Inr (new_Subscription\<lparr>sub_ID := 1\<rparr>)"
  by (simp add: example_defs model_defs)

subsection \<open>The request that is issued\<close>



text \<open>
  Claim C5, amended. For every owner, repository and subscription configuration \<open>s\<close>
  for which the request can be built, that is, the encoder returns the bytes \<open>blob\<close>
  for the object with the keys \<^verbatim>\<open>name\<close>, \<^verbatim>\<open>active\<close>, \<^verbatim>\<open>events\<close>, \<^verbatim>\<open>config\<close> (in it
  \<^verbatim>\<open>url\<close>, \<^verbatim>\<open>content_type\<close>), a key being left out when its field is empty, and
  \<^verbatim>\<open>http.NewRequest\<close> parses the string
  \<^verbatim>\<open>https://api.github.com/repos/{owner}/{repo}/hooks\<close> to the URL \<open>u\<close>,
  \<open>SubscribeToRepo\<close> hands exactly one request to the HTTP client: a POST whose URL is
  \<open>u\<close> and whose body is \<open>blob\<close>; and its result is what follows from the client's
  answer to that request. How many requests the transport then receives is up to
  net/http.
\<close>

theorem SubscribeToRepo_posts_once:
  assumes enc: "json_encode L
       (JObject
          ((if sr_Name s = [] then [] else [(''name'', JString (sr_Name s))]) @
           (if sr_Active s then [(''active'', JBool True)] else []) @
           (case sr_Events s of
              None \<Rightarrow> []
            | Some es \<Rightarrow> if es = [] then [] else [(''events'', JArray (map JString es))]) @
           (case sr_Config s of
              None \<Rightarrow> []
            | Some pc \<Rightarrow>
                [(''config'',
                  JObject
                    ((if pc_URL pc = [] then [] else [(''url'', JString (pc_URL pc))]) @
                     (if pc_ContentType pc = [] then []
                      else [(''content_type'', JString (pc_ContentType pc))])))]))) = Inr blob"
    and url: "url_Parse L (''https://api.github.com/repos/'' @ ow @ ''/'' @ rp @ ''/hooks'') = Inr u"
  shows "\<exists>req.
     fst (SubscribeToRepo L c \<lparr>rsr_Owner = ow, rsr_Repo = rp, rsr_HookSubscription = Some s\<rparr>)
       = [req] \<and>
     req_Method req = ''POST'' \<and>
     req_URL req = u \<and>
     ioutil_ReadAll (req_Body req) = Inr blob \<and>
     snd (SubscribeToRepo L c \<lparr>rsr_Owner = ow, rsr_Repo = rp, rsr_HookSubscription = Some s\<rparr>)
       = (case http_Client_Do L (httpClient c) req of
          Inl err \<Rightarrow> Inl err
        | Inr res \<Rightarrow>
            if \<not> StatusOK (res_StatusCode res) then Inl (errors_New (res_Status res))
            else (case ioutil_ReadAll (res_Body res) of
                    Inl err \<Rightarrow> Inl err
                  | Inr body \<Rightarrow>
                      (case json_Unmarshal L body new_Subscription of
                         Inl err \<Rightarrow> Inl err
                       | Inr subs \<Rightarrow>
                           if subs = blankSubscription then Inl errBlankSubscription
                           else Inr subs)))"
proof -
  let ?rsr = "\<lparr>rsr_Owner = ow, rsr_Repo = rp, rsr_HookSubscription = Some s\<rparr>"
  have "json_of_SubscribeRequest (Some s) =
       (JObject
          ((if sr_Name s = [] then [] else [(''name'', JString (sr_Name s))]) @
           (if sr_Active s then [(''active'', JBool True)] else []) @
           (case sr_Events s of
              None \<Rightarrow> []
            | Some es \<Rightarrow> if es = [] then [] else [(''events'', JArray (map JString es))]) @
           (case sr_Config s of
              None \<Rightarrow> []
            | Some pc \<Rightarrow>
                [(''config'',
                  JObject
                    ((if pc_URL pc = [] then [] else [(''url'', JString (pc_URL pc))]) @
                     (if pc_ContentType pc = [] then []
                      else [(''content_type'', JString (pc_ContentType pc))])))])))"
    by (auto simp: json_of_SubscribeRequest_def json_of_PayloadConfig_def omitempty_def
        split: option.splits)
  then have "json_Marshal L (Some s) = Inr blob"
    using enc by (simp only: json_Marshal_def)
  then obtain req where sent: "fst (SubscribeToRepo L c ?rsr) = [req]"
    and req: "req_Method req = ''POST''" "req_URL req = u"
      "ioutil_ReadAll (req_Body req) = Inr blob"
    using url
    by (simp add: sent_SubscribeToRepo baseURL_def ioutil_ReadAll_def bytes_NewReader_def)
  from SubscribeToRepo_outcome [OF sent] sent req show ?thesis
    by (intro exI [of _ req] conjI)
qed

text \<open>
  An instance: the request of the repository's example and its body, on a transport
  that answers 201 with the body \<^verbatim>\<open>{"id":1}\<close>. The URL needs no escape and is the
  string itself.
\<close>

theorem SubscribeToRepo_posts_once_witness:
  "fst (SubscribeToRepo (example_libs (answer ''201 Created'' 201 body_id1))
          \<lparr>rt = None, apiKey = ''s3cret''\<rparr>
          \<lparr>rsr_Owner = ''orijtech'', rsr_Repo = ''gcla'',
            rsr_HookSubscription = Some example_subscription\<rparr>) = [example_request ''s3cret''] \<and>
   req_Method (example_request ''s3cret'') = ''POST'' \<and>
   req_URL (example_request ''s3cret'') = ''https://api.github.com/repos/orijtech/gcla/hooks'' \<and>
   ioutil_ReadAll (req_Body (example_request ''s3cret'')) = Inr example_body \<and>
   snd (SubscribeToRepo (example_libs (answer ''201 Created'' 201 body_id1))
          \<lparr>rt = None, apiKey = ''s3cret''\<rparr>
          \<lparr>rsr_Owner = ''orijtech'', rsr_Repo = ''gcla'',
            rsr_HookSubscription = Some example_subscription\<rparr>)
     = Inr (new_Subscription\<lparr>sub_ID := 1\<rparr>)"
proof -
  let ?L = "example_libs (answer ''201 Created'' 201 body_id1)"
  let ?c = "\<lparr>rt = None, apiKey = ''s3cret''\<rparr>"
  let ?rsr = "\<lparr>rsr_Owner = ''orijtech'', rsr_Repo = ''gcla'',
            rsr_HookSubscription = Some example_subscription\<rparr>"
  have enc: "json_encode ?L
       (JObject
          ((if sr_Name example_subscription = [] then [] else [(''name'', JString (sr_Name example_subscription))]) @
           (if sr_Active example_subscription then [(''active'', JBool True)] else []) @
           (case sr_Events example_subscription of
              None \<Rightarrow> []
            | Some es \<Rightarrow> if es = [] then [] else [(''events'', JArray (map JString es))]) @
           (case sr_Config example_subscription of
              None \<Rightarrow> []
            | Some pc \<Rightarrow>
                [(''config'',
                  JObject
                    ((if pc_URL pc = [] then [] else [(''url'', JString (pc_URL pc))]) @
                     (if pc_ContentType pc = [] then []
                      else [(''content_type'', JString (pc_ContentType pc))])))]))) = Inr example_body"
    by (simp add: example_libs_def example_subscription_def example_body_def quote_def)
  have url: "url_Parse ?L (''https://api.github.com/repos/'' @ ''orijtech'' @ ''/'' @ ''gcla'' @ ''/hooks'')
      = Inr ''https://api.github.com/repos/orijtech/gcla/hooks''"
    by (simp add: example_libs_def parse_example_def ishex_def)
  from SubscribeToRepo_posts_once [OF enc url, of ?c] obtain req where
    sent: "fst (SubscribeToRepo ?L ?c ?rsr) = [req]"
    and req: "req_Method req = ''POST''"
      "req_URL req = ''https://api.github.com/repos/orijtech/gcla/hooks''"
      "ioutil_ReadAll (req_Body req) = Inr example_body"
    by blast
  have is_req: "fst (SubscribeToRepo ?L ?c ?rsr) = [example_request ''s3cret'']"
    by (simp add: example_defs model_defs)
  with sent have "req = example_request ''s3cret''"
    by simp
  moreover have "snd (SubscribeToRepo ?L ?c ?rsr) = Inr (new_Subscription\<lparr>sub_ID := 1\<rparr>)"
    by (simp add: example_defs model_defs)
  ultimately show ?thesis
    using is_req req by simp
qed

text \<open>
  An owner with a space: the request carries the URL as net/url writes it, with
  \<^verbatim>\<open>%20\<close>, not the string it was built from.
\<close>

lemma owner_with_space_is_escaped:
  "map req_URL
     (fst (SubscribeToRepo (example_libs (answer ''201 Created'' 201 body_id1))
             \<lparr>rt = None, apiKey = ''s3cret''\<rparr>
             \<lparr>rsr_Owner = ''a b'', rsr_Repo = ''gcla'',
               rsr_HookSubscription = Some example_subscription\<rparr>))
     = [''https://api.github.com/repos/a%20b/gcla/hooks'']"
  by (simp add: example_defs model_defs)

text \<open>
  The claim as it was stated, for every owner, fails on an owner that makes the URL
  unparsable: \<^verbatim>\<open>http.NewRequest\<close> returns an error, \<open>SubscribeToRepo\<close> returns it, and no
  request is issued.
\<close>

theorem SubscribeToRepo_bad_url_no_post:
  "fst (SubscribeToRepo (example_libs (answer ''201 Created'' 201 body_id1))
          \<lparr>rt = None, apiKey = ''s3cret''\<rparr>
          \<lparr>rsr_Owner = ''%zz'', rsr_Repo = ''gcla'',
            rsr_HookSubscription = Some example_subscription\<rparr>) = [] \<and>
   isl (snd (SubscribeToRepo (example_libs (answer ''201 Created'' 201 body_id1))
          \<lparr>rt = None, apiKey = ''s3cret''\<rparr>
          \<lparr>rsr_Owner = ''%zz'', rsr_Repo = ''gcla'',
            rsr_HookSubscription = Some example_subscription\<rparr>))"
  by (simp add: example_defs model_defs)

subsection \<open>The client's fields\<close>

text \<open>
  Claim C6. When the variable \<^verbatim>\<open>GCLA_GITHUB_API_KEY\<close> is unset or empty,
  \<open>NewClientFromEnv\<close> returns no client and an error whose text names the variable;
  when it is set to a non-empty value, it returns a client that holds that value as
  its API key.
\<close>

theorem NewClientFromEnv_reads_key:
  "(env ''GCLA_GITHUB_API_KEY'' = None \<or> env ''GCLA_GITHUB_API_KEY'' = Some [] \<longrightarrow>
      (\<exists>e. NewClientFromEnv env = Inl e \<and> sublist ''GCLA_GITHUB_API_KEY'' (Error e))) \<and>
   (\<forall>k. env ''GCLA_GITHUB_API_KEY'' = Some k \<and> k \<noteq> [] \<longrightarrow>
      (\<exists>c. NewClientFromEnv env = Inr c \<and> apiKey c = k))"
proof -
  have "sublist gclaEnvKey (''expecting '' @ [CHR 0x22] @ gclaEnvKey @ [CHR 0x22] @
                               '' to have been set in your environment'')"
    unfolding sublist_def
    by (rule exI [of _ "''expecting '' @ [CHR 0x22]"],
        rule exI [of _ "[CHR 0x22] @ '' to have been set in your environment''"]) simp
  then show ?thesis
    by (auto simp: NewClientFromEnv_def EnvOrAlternates_def gclaEnvKey_def Let_def)
qed

text \<open>An instance: the empty environment, an empty value, and the value \<^verbatim>\<open>s3cret\<close>.\<close>

theorem NewClientFromEnv_reads_key_witness:
  "(\<exists>e. NewClientFromEnv Map.empty = Inl e \<and> sublist ''GCLA_GITHUB_API_KEY'' (Error e)) \<and>
   (\<exists>e. NewClientFromEnv [''GCLA_GITHUB_API_KEY'' \<mapsto> []] = Inl e \<and>
        sublist ''GCLA_GITHUB_API_KEY'' (Error e)) \<and>
   (\<exists>c. NewClientFromEnv [''GCLA_GITHUB_API_KEY'' \<mapsto> ''s3cret''] = Inr c \<and>
        apiKey c = ''s3cret'')"
  using NewClientFromEnv_reads_key [of Map.empty]
    NewClientFromEnv_reads_key [of "[''GCLA_GITHUB_API_KEY'' \<mapsto> []]"]
    NewClientFromEnv_reads_key [of "[''GCLA_GITHUB_API_KEY'' \<mapsto> ''s3cret'']"]
  by simp

text \<open>
  Claim C9. \<open>SetHTTPRoundTripper\<close> changes the transport field and nothing else: the
  API key is the one the client had, so the requests issued afterwards are the same,
  \<^verbatim>\<open>Authorization\<close> header included, as the ones the client would have issued before.
\<close>

theorem SetHTTPRoundTripper_keeps_apiKey:
  "apiKey (SetHTTPRoundTripper t c) = apiKey c \<and>
   rt (SetHTTPRoundTripper t c) = t \<and>
   Client.more (SetHTTPRoundTripper t c) = Client.more c \<and>
   fst (doHTTPReq L (SetHTTPRoundTripper t c) req) = fst (doHTTPReq L c req) \<and>
   fst (SubscribeToRepo L (SetHTTPRoundTripper t c) rsr) = fst (SubscribeToRepo L c rsr)"
proof -
  have d: "fst (doHTTPReq L (SetHTTPRoundTripper t c) q) = fst (doHTTPReq L c q)" for q
    by (simp add: SetHTTPRoundTripper_def fst_doHTTPReq)
  have "fst (SubscribeToRepo L (SetHTTPRoundTripper t c) rsr) = fst (SubscribeToRepo L c rsr)"
    by (simp add: fst_SubscribeToRepo d cong: sum.case_cong)
  with d show ?thesis
    by (simp add: SetHTTPRoundTripper_def)
qed

text \<open>An instance: a client with the key \<^verbatim>\<open>s3cret\<close> is given a transport.\<close>

theorem SetHTTPRoundTripper_keeps_apiKey_witness:
  "apiKey (SetHTTPRoundTripper (Some (answer ''404 Not Found'' 404 []))
             \<lparr>rt = None, apiKey = ''s3cret''\<rparr>) = ''s3cret'' \<and>
   fst (SubscribeToRepo (example_libs (answer ''201 Created'' 201 body_id1))
          (SetHTTPRoundTripper (Some (answer ''404 Not Found'' 404 []))
             \<lparr>rt = None, apiKey = ''s3cret''\<rparr>) example_rsr)
     = [example_request ''s3cret'']"
  using SetHTTPRoundTripper_keeps_apiKey [of "Some (answer ''404 Not Found'' 404 [])"
      "\<lparr>rt = None, apiKey = ''s3cret''\<rparr>" "example_libs (answer ''201 Created'' 201 body_id1)"
      "example_request []" example_rsr]
  by (simp add: example_defs model_defs SetHTTPRoundTripper_def)

subsection \<open>The ping route\<close>

text \<open>
  Claim C7, amended. For every request to the ping route whose body is read and is
  not valid JSON for the ping record (the decoder returns an error), the server
  responds with status 400. The response body is the text of that error followed by a
  newline, except in reply to a \<^verbatim>\<open>HEAD\<close> request, where the server sends no body.
\<close>

theorem pong_malformed_400:
  assumes "ioutil_ReadAll (req_Body r) = Inr body"
    and "unmarshal body new_pingPayload = Inl err"
  shows "serve (pong unmarshal) r =
     (400, if req_Method r = ''HEAD'' then [] else Error err @ [CHR 0x0A])"
  using assms
  by (simp add: serve_def pong_def parseRequest_def new_ResponseWriter_def Let_def
      http_Error_def StatusBadRequest_def)

text \<open>
  An instance: a \<^verbatim>\<open>POST\<close> with the body \<^verbatim>\<open>{\<close>, which stops early, and a \<^verbatim>\<open>HEAD\<close>
  with no body.
\<close>

theorem pong_malformed_400_witness:
  "serve (pong ping_decode_example) (ping_request ''POST'' ''{'')
     = (400, ''unexpected end of JSON input'' @ [CHR 0x0A]) \<and>
   serve (pong ping_decode_example) (ping_request ''HEAD'' []) = (400, [])"
  using pong_malformed_400 [of "ping_request ''POST'' ''{''" "''{''" ping_decode_example
      "lib_error ''unexpected end of JSON input''"]
    pong_malformed_400 [of "ping_request ''HEAD'' []" "[]" ping_decode_example
      "lib_error ''unexpected end of JSON input''"]
  by (simp add: ping_request_def ping_decode_example_def ioutil_ReadAll_def bytes_NewReader_def)

text \<open>
  The claim as it was stated has the error message itself as the response body. On a
  \<^verbatim>\<open>POST\<close> with the body \<^verbatim>\<open>{\<close> the response body is not the message: \<^verbatim>\<open>http.Error\<close>
  ends it with a newline.
\<close>

theorem pong_body_is_not_the_message:
  "ping_decode_example ''{'' new_pingPayload = Inl (lib_error ''unexpected end of JSON input'') \<and>
   snd (serve (pong ping_decode_example) (ping_request ''POST'' ''{''))
     \<noteq> Error (lib_error ''unexpected end of JSON input'')"
  by (simp add: serve_def pong_def parseRequest_def new_ResponseWriter_def Let_def
      http_Error_def StatusBadRequest_def ping_decode_example_def ping_request_def
      ioutil_ReadAll_def bytes_NewReader_def)

text \<open>
  Claim C10. For every request to the ping route whose body is read and is valid JSON
  for the ping record (the decoder returns a payload, whatever it is), the server
  responds with status 200 and an empty body: the payload is not used.
\<close>

theorem pong_valid_200:
  assumes "ioutil_ReadAll (req_Body r) = Inr body"
    and "unmarshal body new_pingPayload = Inr p"
  shows "serve (pong unmarshal) r = (200, [])"
  using assms
  by (simp add: serve_def pong_def parseRequest_def new_ResponseWriter_def Let_def)

text \<open>An instance: the empty object.\<close>

theorem pong_valid_200_witness:
  "serve (pong ping_decode_example) (ping_request ''POST'' ''{}'') = (200, [])"
  using pong_valid_200 [of "ping_request ''POST'' ''{}''" "''{}''" ping_decode_example
      new_pingPayload]
  by (simp add: ping_request_def ping_decode_example_def ioutil_ReadAll_def bytes_NewReader_def)

end
